theory Spec2Isabelle
  imports Main
begin

section \<open>Python strings\<close>

text \<open>
  A Python \<open>str\<close> is modelled as a \<^typ>\<open>string\<close>; every \<^typ>\<open>char\<close> stands for the code
  point of the same number (0 to 255). The functions below follow the built-in string
  methods the program calls: \<open>str.split()\<close>, \<open>str.strip(chars)\<close>, \<open>str.strip()\<close>,
  \<open>str.lower()\<close>, \<open>str.endswith\<close> and the \<open>in\<close> test on strings.
\<close>

definition py_isspace :: "char \<Rightarrow> bool" where
  "py_isspace c =
     (let n = (of_char c :: nat)
      in (9 \<le> n \<and> n \<le> 13) \<or> (28 \<le> n \<and> n \<le> 32) \<or> n = 133 \<or> n = 160)"

fun py_split_from :: "string \<Rightarrow> string \<Rightarrow> string list" where
  "py_split_from [] cur = (if cur = [] then [] else [cur])"
| "py_split_from (c # cs) cur =
     (if py_isspace c
      then (if cur = [] then py_split_from cs [] else cur # py_split_from cs [])
      else py_split_from cs (cur @ [c]))"

definition py_split :: "string \<Rightarrow> string list" where
  "py_split s = py_split_from s []"

definition py_strip_chars :: "string \<Rightarrow> string \<Rightarrow> string" where
  "py_strip_chars chars s =
     rev (dropWhile (\<lambda>c. c \<in> set chars) (rev (dropWhile (\<lambda>c. c \<in> set chars) s)))"

definition py_strip :: "string \<Rightarrow> string" where
  "py_strip s = rev (dropWhile py_isspace (rev (dropWhile py_isspace s)))"

definition py_lower_char :: "char \<Rightarrow> char" where
  "py_lower_char c =
     (let n = (of_char c :: nat)
      in if (65 \<le> n \<and> n \<le> 90) \<or> (192 \<le> n \<and> n \<le> 222 \<and> n \<noteq> 215)
         then char_of (n + 32) else c)"

definition py_lower :: "string \<Rightarrow> string" where
  "py_lower s = map py_lower_char s"

definition py_endswith :: "string \<Rightarrow> string \<Rightarrow> bool" where
  "py_endswith s suf =
     (length suf \<le> length s \<and> drop (length s - length suf) s = suf)"

fun py_startswith :: "string \<Rightarrow> string \<Rightarrow> bool" where
  "py_startswith s [] = True"
| "py_startswith [] (p # ps) = False"
| "py_startswith (c # cs) (p # ps) = (c = p \<and> py_startswith cs ps)"

fun py_contains :: "string \<Rightarrow> string \<Rightarrow> bool" where
  "py_contains [] sub = (sub = [])"
| "py_contains (c # cs) sub = (py_startswith (c # cs) sub \<or> py_contains cs sub)"


section \<open>Exceptions\<close>

text \<open>
  The exceptions the program raises or receives from its libraries, each with the text
  of \<open>str(e)\<close>. \<open>IOError\<close> is Python's \<open>OSError\<close>; \<open>FileNotFoundError\<close> is a subclass of
  it, and pandas' \<open>EmptyDataError\<close> is a subclass of \<open>ValueError\<close>. \<open>OtherException\<close>
  stands for every other subclass of \<open>Exception\<close>.
\<close>

datatype exn =
    KeyError string
  | ValueError string
  | TypeError string
  | IOError string
  | FileNotFoundError string
  | EmptyDataError string
  | GoogleAPIError string
  | RetryError string
  | GeminiAPIError string
  | OtherException string

fun exn_str :: "exn \<Rightarrow> string" where
  "exn_str (KeyError m) = m"
| "exn_str (ValueError m) = m"
| "exn_str (TypeError m) = m"
| "exn_str (IOError m) = m"
| "exn_str (FileNotFoundError m) = m"
| "exn_str (EmptyDataError m) = m"
| "exn_str (GoogleAPIError m) = m"
| "exn_str (RetryError m) = m"
| "exn_str (GeminiAPIError m) = m"
| "exn_str (OtherException m) = m"

fun isinstance_ValueError :: "exn \<Rightarrow> bool" where
  "isinstance_ValueError (ValueError m) = True"
| "isinstance_ValueError (EmptyDataError m) = True"
| "isinstance_ValueError e = False"

fun isinstance_OSError :: "exn \<Rightarrow> bool" where
  "isinstance_OSError (IOError m) = True"
| "isinstance_OSError (FileNotFoundError m) = True"
| "isinstance_OSError e = False"

fun isinstance_FileNotFoundError :: "exn \<Rightarrow> bool" where
  "isinstance_FileNotFoundError (FileNotFoundError m) = True"
| "isinstance_FileNotFoundError e = False"

fun isinstance_EmptyDataError :: "exn \<Rightarrow> bool" where
  "isinstance_EmptyDataError (EmptyDataError m) = True"
| "isinstance_EmptyDataError e = False"

fun isinstance_KeyError :: "exn \<Rightarrow> bool" where
  "isinstance_KeyError (KeyError m) = True"
| "isinstance_KeyError e = False"

fun isinstance_GeminiAPIError :: "exn \<Rightarrow> bool" where
  "isinstance_GeminiAPIError (GeminiAPIError m) = True"
| "isinstance_GeminiAPIError e = False"

fun isinstance_GoogleAPIError_or_RetryError :: "exn \<Rightarrow> bool" where
  "isinstance_GoogleAPIError_or_RetryError (GoogleAPIError m) = True"
| "isinstance_GoogleAPIError_or_RetryError (RetryError m) = True"
| "isinstance_GoogleAPIError_or_RetryError e = False"


section \<open>Cells, rows and tables\<close>

text \<open>
  A cell of a pandas table is a string, an integer or a float. Floating point is not
  modelled: a float cell carries the text that \<open>str()\<close> gives for it (\<open>nan\<close> for an
  empty cell).
\<close>

datatype cell = CStr string | CInt int | CFloat string

fun dec_nat :: "nat \<Rightarrow> string" where
  "dec_nat n =
     (if n < 10 then [char_of (48 + n)]
      else dec_nat (n div 10) @ [char_of (48 + n mod 10)])"

declare dec_nat.simps [simp del]

definition dec_int :: "int \<Rightarrow> string" where
  "dec_int i = (if i < 0 then CHR ''-'' # dec_nat (nat (- i)) else dec_nat (nat i))"

fun py_str :: "cell \<Rightarrow> string" where
  "py_str (CStr s) = s"
| "py_str (CInt i) = dec_int i"
| "py_str (CFloat r) = r"

text \<open>
  A row handed out by \<open>DataFrame.iterrows()\<close> is a \<open>Series\<close>: the column labels in table
  order, each with the cell of that row. \<open>key in row\<close> tests the labels; \<open>row.to_dict()\<close>
  builds a dictionary from the pairs in order, so a later duplicate label wins.
\<close>

type_synonym series = "(string \<times> cell) list"

definition series_keys :: "series \<Rightarrow> string list" where
  "series_keys row = map fst row"

definition series_contains :: "series \<Rightarrow> string \<Rightarrow> bool" where
  "series_contains row key = (key \<in> set (series_keys row))"

definition to_dict :: "series \<Rightarrow> (string \<rightharpoonup> cell)" where
  "to_dict row = map_of (rev row)"


text \<open>
  A \<open>DataFrame\<close> is column-oriented: the number of rows and the columns in order, each a
  label with its cells. Every column of a table that pandas builds has \<open>nrows\<close> cells.
\<close>

record dataframe =
  nrows :: nat
  cols :: "(string \<times> cell list) list"

definition wf_dataframe :: "dataframe \<Rightarrow> bool" where
  "wf_dataframe df = list_all (\<lambda>c. length (snd c) = nrows df) (cols df)"

definition columns :: "dataframe \<Rightarrow> string list" where
  "columns df = map fst (cols df)"

definition len_df :: "dataframe \<Rightarrow> nat" where
  "len_df df = nrows df"

definition row_at :: "dataframe \<Rightarrow> nat \<Rightarrow> series" where
  "row_at df i = map (\<lambda>c. (fst c, snd c ! i)) (cols df)"

definition iterrows :: "dataframe \<Rightarrow> (nat \<times> series) list" where
  "iterrows df = map (\<lambda>i. (i, row_at df i)) [0..<nrows df]"


section \<open>\<open>str.format\<close> with keyword arguments only\<close>

text \<open>
  \<open>prompt_template.format(**row.to_dict())\<close> runs the format-string machinery of the
  interpreter with an empty tuple of positional arguments. The template is read left to
  right; literal text is copied, \<open>{{\<close> and \<open>}}\<close> give one brace, and a replacement
  field \<open>{field_name!conversion:format_spec}\<close> is looked up and formatted. The first
  failure ends the call. Only two kinds of failure matter to the caller: a \<open>KeyError\<close>,
  and any other exception. The messages of the interpreter are written without their
  quotation marks, and the one for a positional field without its index.
\<close>

datatype fmt_exn = FmtKeyError string | FmtNonKey string

record field =
  field_name :: string
  conversion :: "char option"
  format_spec :: string

datatype item = Lit string | Field field | Bad string

text \<open>
  The field name runs to the first \<open>}\<close>, \<open>:\<close> or \<open>!\<close>; after a \<open>[\<close> everything up to the
  next \<open>]\<close> belongs to the name. The flag tells whether the scan is inside brackets.
\<close>

fun scan_field_name :: "bool \<Rightarrow> string \<Rightarrow> string \<Rightarrow> string + (string \<times> char \<times> string)" where
  "scan_field_name br [] acc = Inl ''expected } before end of string''"
| "scan_field_name br (c # cs) acc =
     (if br then scan_field_name (c \<noteq> CHR '']'') cs (acc @ [c])
      else if c = CHR ''{'' then Inl ''unexpected { in field name''
      else if c = CHR ''['' then scan_field_name True cs (acc @ [c])
      else if c = CHR ''}'' \<or> c = CHR '':'' \<or> c = CHR ''!'' then Inr (acc, c, cs)
      else scan_field_name False cs (acc @ [c]))"

text \<open>The format spec runs to the brace that closes the field; nested braces are counted.\<close>

fun scan_format_spec :: "nat \<Rightarrow> string \<Rightarrow> string \<Rightarrow> (string \<times> string) option" where
  "scan_format_spec n [] acc = None"
| "scan_format_spec n (c # cs) acc =
     (if c = CHR ''{'' then scan_format_spec (Suc n) cs (acc @ [c])
      else if c = CHR ''}''
      then (if n \<le> 1 then Some (acc, cs) else scan_format_spec (n - 1) cs (acc @ [c]))
      else scan_format_spec n cs (acc @ [c]))"

definition parse_spec :: "string \<Rightarrow> char option \<Rightarrow> string \<Rightarrow> string + (field \<times> string)" where
  "parse_spec name cv s =
     (case scan_format_spec 1 s [] of
        None \<Rightarrow> Inl ''unmatched { in format spec''
      | Some (sp, r) \<Rightarrow>
          Inr (\<lparr>field_name = name, conversion = cv, format_spec = sp\<rparr>, r))"

definition parse_field :: "string \<Rightarrow> string + (field \<times> string)" where
  "parse_field s =
     (case scan_field_name False s [] of
        Inl e \<Rightarrow> Inl e
      | Inr (name, t, r) \<Rightarrow>
          if t = CHR ''}''
          then Inr (\<lparr>field_name = name, conversion = None, format_spec = []\<rparr>, r)
          else if t = CHR ''!''
          then (case r of
                  [] \<Rightarrow> Inl ''end of string while looking for conversion specifier''
                | cv # r1 \<Rightarrow>
                    (case r1 of
                       [] \<Rightarrow> parse_spec name (Some cv) []
                     | c # r2 \<Rightarrow>
                         if c = CHR ''}''
                         then Inr (\<lparr>field_name = name, conversion = Some cv,
                                    format_spec = []\<rparr>, r2)
                         else if c \<noteq> CHR '':''
                         then Inl ''expected : after conversion specifier''
                         else parse_spec name (Some cv) r2))
          else parse_spec name None r)"

lemma scan_field_name_shorter:
  "scan_field_name br s acc = Inr (name, t, r) \<Longrightarrow> length r < length s"
  by (induction br s acc rule: scan_field_name.induct) (auto split: if_splits)

lemma scan_format_spec_shorter:
  "scan_format_spec n s acc = Some (sp, r) \<Longrightarrow> length r < length s"
  by (induction n s acc rule: scan_format_spec.induct) (auto split: if_splits)

lemma parse_spec_shorter:
  "parse_spec name cv s = Inr (f, r) \<Longrightarrow> length r < length s"
  by (auto simp: parse_spec_def split: option.splits dest: scan_format_spec_shorter)

lemma parse_field_shorter:
  assumes "parse_field s = Inr (f, r)"
  shows "length r < length s"
proof (cases "scan_field_name False s []")
  case (Inl e)
  with assms show ?thesis by (simp add: parse_field_def)
next
  case (Inr p)
  obtain name t r0 where p: "p = (name, t, r0)" by (cases p)
  have r0: "length r0 < length s"
    using Inr p scan_field_name_shorter by blast
  from assms Inr p have "length r \<le> length r0"
    by (auto simp: parse_field_def split: if_splits list.splits
             dest!: parse_spec_shorter)
  with r0 show ?thesis by simp
qed

text \<open>
  The template as a list of items, one per literal character, brace escape or field; a
  malformed brace ends the list with \<open>Bad\<close>, the \<open>ValueError\<close> of the parser.
\<close>

function parse_template :: "string \<Rightarrow> item list" where
  "parse_template [] = []"
| "parse_template (c # cs) =
     (if c = CHR ''}''
      then (case cs of
              [] \<Rightarrow> [Bad ''Single } encountered in format string'']
            | d # ds \<Rightarrow>
                if d = CHR ''}'' then Lit [c] # parse_template ds
                else [Bad ''Single } encountered in format string''])
      else if c = CHR ''{''
      then (case cs of
              [] \<Rightarrow> [Bad ''Single { encountered in format string'']
            | d # ds \<Rightarrow>
                if d = CHR ''{'' then Lit [c] # parse_template ds
                else (case parse_field cs of
                        Inl e \<Rightarrow> [Bad e]
                      | Inr (f, r) \<Rightarrow> Field f # parse_template r))
      else Lit [c] # parse_template cs)"
  by pat_completeness auto
termination
  by (relation "measure length") (auto dest: parse_field_shorter)

declare parse_template.simps [simp del]


text \<open>
  The part of the field name before the first \<open>.\<close> or \<open>[\<close> selects the argument; the rest
  are attribute and index accesses on it. An empty or all-digit first part is a position
  in the (empty) tuple of positional arguments.
\<close>

definition field_name_split :: "string \<Rightarrow> string \<times> string" where
  "field_name_split name =
     (takeWhile (\<lambda>c. c \<noteq> CHR ''.'' \<and> c \<noteq> CHR ''['') name,
      dropWhile (\<lambda>c. c \<noteq> CHR ''.'' \<and> c \<noteq> CHR ''['') name)"

definition is_decimal :: "char \<Rightarrow> bool" where
  "is_decimal c = (let n = (of_char c :: nat) in 48 \<le> n \<and> n \<le> 57)"

definition positional :: "string \<Rightarrow> bool" where
  "positional first = (first = [] \<or> list_all is_decimal first)"

text \<open>
  What the interpreter does with a value once it is found, when the field has accessors,
  a conversion or a format spec (\<open>getattr\<close>, indexing, \<open>repr\<close>, \<open>format(value, spec)\<close>
  with nested fields expanded), is not part of the program: it is the parameter \<open>ext\<close>,
  given the keyword arguments, the value, the accessors, the conversion and the spec.
  A plain field \<open>{name}\<close> gives \<open>str(value)\<close>.
\<close>

type_synonym field_ext =
  "(string \<rightharpoonup> cell) \<Rightarrow> cell \<Rightarrow> string \<Rightarrow> char option \<Rightarrow> string \<Rightarrow> fmt_exn + string"

definition render_field :: "field_ext \<Rightarrow> (string \<rightharpoonup> cell) \<Rightarrow> field \<Rightarrow> fmt_exn + string" where
  "render_field ext kwargs f =
     (let (first, rest) = field_name_split (field_name f)
      in if positional first
         then Inl (FmtNonKey ''Replacement index out of range for positional args tuple'')
         else (case kwargs first of
                 None \<Rightarrow> Inl (FmtKeyError first)
               | Some v \<Rightarrow>
                   if rest = [] \<and> conversion f = None \<and> format_spec f = []
                   then Inr (py_str v)
                   else ext kwargs v rest (conversion f) (format_spec f)))"

fun render_items :: "field_ext \<Rightarrow> (string \<rightharpoonup> cell) \<Rightarrow> item list \<Rightarrow> fmt_exn + string" where
  "render_items ext kwargs [] = Inr []"
| "render_items ext kwargs (Lit s # its) =
     (case render_items ext kwargs its of
        Inl e \<Rightarrow> Inl e
      | Inr out \<Rightarrow> Inr (s @ out))"
| "render_items ext kwargs (Field f # its) =
     (case render_field ext kwargs f of
        Inl e \<Rightarrow> Inl e
      | Inr s \<Rightarrow>
          (case render_items ext kwargs its of
             Inl e \<Rightarrow> Inl e
           | Inr out \<Rightarrow> Inr (s @ out)))"
| "render_items ext kwargs (Bad msg # its) = Inl (FmtNonKey msg)"

definition py_format :: "field_ext \<Rightarrow> string \<Rightarrow> (string \<rightharpoonup> cell) \<Rightarrow> fmt_exn + string" where
  "py_format ext template kwargs = render_items ext kwargs (parse_template template)"









section \<open>Rendering the prompt (\<open>generate_text_from_row\<close>, first part)\<close>

text \<open>
  The first \<open>try\<close> block of \<open>generate_text_from_row\<close>. The check before formatting takes
  the whitespace-separated words of the template that contain both braces and strips
  braces from their two ends. A \<open>KeyError\<close>, raised by the check or by \<open>format\<close>, is raised
  again as \<open>KeyError\<close>; every other exception becomes \<open>ValueError\<close>. The errors carry the
  part of the message that varies: the missing key, or the text of the other exception.
\<close>

definition required_keys :: "string \<Rightarrow> string list" where
  "required_keys prompt_template =
     map (py_strip_chars ''{}'')
       (filter (\<lambda>col. CHR ''{'' \<in> set col \<and> CHR ''}'' \<in> set col) (py_split prompt_template))"

definition render_prompt :: "field_ext \<Rightarrow> series \<Rightarrow> string \<Rightarrow> exn + string" where
  "render_prompt ext row prompt_template =
     (case find (\<lambda>key. \<not> series_contains row key) (required_keys prompt_template) of
        Some key \<Rightarrow> Inl (KeyError key)
      | None \<Rightarrow>
          (case py_format ext prompt_template (to_dict row) of
             Inl (FmtKeyError key) \<Rightarrow> Inl (KeyError key)
           | Inl (FmtNonKey msg) \<Rightarrow> Inl (ValueError msg)
           | Inr formatted_prompt \<Rightarrow> Inr formatted_prompt))"

text \<open>
  An instance of the parameter for running the model on templates of plain fields, where
  it is never called: it refuses every accessor, conversion and format spec.
\<close>

definition plain_only :: field_ext where
  "plain_only kwargs v rest cv sp = Inl (FmtNonKey ''not a plain field'')"


section \<open>The generation client (\<open>generate_text_from_row\<close>, second part)\<close>

text \<open>
  The response of \<open>model.generate_content\<close>, with the attributes the program reads.
  A block reason that is absent or falsy is \<open>None\<close>, otherwise the text an f-string
  prints for it. The attribute \<open>text\<close> may be missing (\<open>hasattr\<close> is false), may raise
  when read, or holds a string.
\<close>

record feedback =
  block_reason :: "string option"

record content =
  content_parts :: "string list"

record candidate =
  content :: "content option"

datatype text_attr = NoTextAttr | TextRaises exn | TextValue string

record response =
  parts :: "string list"
  prompt_feedback :: "feedback option"
  candidates :: "candidate list"
  response_text :: text_attr

definition quote :: string where
  "quote = [CHR 0x27]"

definition reason_text :: "string \<Rightarrow> string" where
  "reason_text r = '' (Reason: '' @ r @ '')''"

definition empty_response_message :: "string \<Rightarrow> string \<Rightarrow> string" where
  "empty_response_message reason formatted_prompt =
     ''Gemini API returned an empty response or content was blocked'' @ reason
     @ ''. No text generated for prompt: '' @ quote @ formatted_prompt @ quote"

definition whitespace_message :: "string \<Rightarrow> string \<Rightarrow> string" where
  "whitespace_message reason formatted_prompt =
     ''Gemini API returned empty or whitespace text'' @ reason
     @ '' for prompt: '' @ quote @ formatted_prompt @ quote"

definition call_failed_message :: "string \<Rightarrow> string \<Rightarrow> string" where
  "call_failed_message e formatted_prompt =
     ''Gemini API call failed: '' @ e @ ''. Prompt: '' @ quote @ formatted_prompt @ quote"

definition access_message :: "string \<Rightarrow> string" where
  "access_message e =
     ''Error accessing generated text from Gemini API response: '' @ e
     @ ''. Response structure might be unexpected.''"

definition unexpected_message :: "string \<Rightarrow> string \<Rightarrow> string" where
  "unexpected_message e formatted_prompt =
     ''An unexpected error occurred during text generation with Gemini API: '' @ e
     @ ''. Prompt: '' @ quote @ formatted_prompt @ quote"

text \<open>
  The three \<open>except\<close> clauses around the API call, in order. A \<open>GeminiAPIError\<close> raised
  inside the \<open>try\<close> block is an \<open>Exception\<close>, so the last clause wraps it once more.
\<close>

definition wrap_generation_error :: "string \<Rightarrow> exn \<Rightarrow> exn" where
  "wrap_generation_error formatted_prompt e =
     (if isinstance_GoogleAPIError_or_RetryError e
      then GeminiAPIError (call_failed_message (exn_str e) formatted_prompt)
      else if isinstance_KeyError e
      then GeminiAPIError (access_message (exn_str e))
      else GeminiAPIError (unexpected_message (exn_str e) formatted_prompt))"

text \<open>The first text of the first candidate, when that candidate has content with parts.\<close>

definition first_candidate_text :: "response \<Rightarrow> string option" where
  "first_candidate_text r =
     (case candidates r of
        [] \<Rightarrow> None
      | cand # _ \<Rightarrow>
          (case content cand of
             None \<Rightarrow> None
           | Some ct \<Rightarrow>
               (case content_parts ct of
                  [] \<Rightarrow> None
                | t # _ \<Rightarrow> Some t)))"

text \<open>
  The text the program selects from a response that has parts: \<open>response.text\<close> when the
  attribute is there and truthy, else the first candidate's first text, else the empty
  string. Reading \<open>response.text\<close> may raise.
\<close>

definition select_text :: "response \<Rightarrow> exn + string" where
  "select_text r =
     (case response_text r of
        TextRaises e \<Rightarrow> Inl e
      | TextValue t \<Rightarrow>
          if t \<noteq> [] then Inr t
          else Inr (case first_candidate_text r of Some c \<Rightarrow> c | None \<Rightarrow> [])
      | NoTextAttr \<Rightarrow> Inr (case first_candidate_text r of Some c \<Rightarrow> c | None \<Rightarrow> []))"

definition block_reason_text :: "response \<Rightarrow> string" where
  "block_reason_text r =
     (case prompt_feedback r of
        None \<Rightarrow> []
      | Some fb \<Rightarrow> (case block_reason fb of None \<Rightarrow> [] | Some br \<Rightarrow> reason_text br))"

text \<open>The body of the second \<open>try\<close> block after the response has arrived.\<close>

definition extract_text :: "string \<Rightarrow> response \<Rightarrow> exn + string" where
  "extract_text formatted_prompt r =
     (if parts r = []
      then (case first_candidate_text r of
              Some candidate_text \<Rightarrow>
                if candidate_text \<noteq> [] then Inr candidate_text
                else Inl (GeminiAPIError
                            (empty_response_message (block_reason_text r) formatted_prompt))
            | None \<Rightarrow>
                Inl (GeminiAPIError
                       (empty_response_message (block_reason_text r) formatted_prompt)))
      else (case select_text r of
              Inl e \<Rightarrow> Inl e
            | Inr t \<Rightarrow>
                if py_strip t = []
                then Inl (GeminiAPIError
                            (whitespace_message (block_reason_text r) formatted_prompt))
                else Inr t))"

text \<open>
  The remote service answers a prompt with a response or an exception and may change
  with every call: \<open>generate_content\<close> takes and returns the state of the service. The
  run records every prompt that is sent.
\<close>

record 'w api_state =
  service :: 'w
  sent :: "string list"

record 'w world =
  getenv :: "string \<Rightarrow> string option"
  genai_configure :: "string \<Rightarrow> exn option"
  format_value :: field_ext
  generate_content :: "'w \<Rightarrow> string \<Rightarrow> string \<Rightarrow> (exn + response) \<times> 'w"
  read_csv :: "string \<Rightarrow> exn + dataframe"
  read_excel :: "string \<Rightarrow> exn + dataframe"
  to_csv :: "dataframe \<Rightarrow> string \<Rightarrow> bool \<Rightarrow> exn option"
  to_excel :: "dataframe \<Rightarrow> string \<Rightarrow> bool \<Rightarrow> string option \<Rightarrow> exn option"

definition generate :: "'w world \<Rightarrow> string \<Rightarrow> string \<Rightarrow> 'w api_state \<Rightarrow> (exn + string) \<times> 'w api_state" where
  "generate w model_name formatted_prompt st =
     (case generate_content w (service st) model_name formatted_prompt of
        (outcome, service') \<Rightarrow>
          (let st' = \<lparr>service = service', sent = sent st @ [formatted_prompt]\<rparr>
           in case outcome of
                Inl e \<Rightarrow> (Inl (wrap_generation_error formatted_prompt e), st')
              | Inr r \<Rightarrow>
                  (case extract_text formatted_prompt r of
                     Inl e \<Rightarrow> (Inl (wrap_generation_error formatted_prompt e), st')
                   | Inr t \<Rightarrow> (Inr t, st'))))"

definition generate_text_from_row ::
  "'w world \<Rightarrow> series \<Rightarrow> string \<Rightarrow> string \<Rightarrow> 'w api_state \<Rightarrow> (exn + string) \<times> 'w api_state" where
  "generate_text_from_row w row prompt_template model_name st =
     (case render_prompt (format_value w) row prompt_template of
        Inl e \<Rightarrow> (Inl e, st)
      | Inr formatted_prompt \<Rightarrow> generate w model_name formatted_prompt st)"


section \<open>Configuration (\<open>configure_gemini\<close>)\<close>

definition configure_gemini :: "'w world \<Rightarrow> exn + unit" where
  "configure_gemini w =
     (case getenv w ''GEMINI_API_KEY'' of
        None \<Rightarrow> Inl (ValueError ''GEMINI_API_KEY environment variable not set. Please set it to your Google Generative AI API key.'')
      | Some api_key \<Rightarrow>
          if api_key = []
          then Inl (ValueError ''GEMINI_API_KEY environment variable not set. Please set it to your Google Generative AI API key.'')
          else (case genai_configure w api_key of
                  Some e \<Rightarrow> Inl (GeminiAPIError (''Failed to configure Gemini API: '' @ exn_str e))
                | None \<Rightarrow> Inr ()))"


section \<open>Table files (\<open>load_xls\<close>, \<open>save_xls\<close>)\<close>

text \<open>
  \<open>pd.read_csv\<close> and \<open>pd.read_excel\<close> are the world's \<open>read_csv\<close> and \<open>read_excel\<close>: for
  a path they return a table or raise. \<open>load_xls\<close> chooses between them and translates
  the exceptions; an exception that no clause translates is raised again as it is.
\<close>

definition pandas_read :: "'w world \<Rightarrow> string \<Rightarrow> exn + dataframe" where
  "pandas_read w file_path =
     (if py_endswith (py_lower file_path) ''.csv''
      then read_csv w file_path
      else read_excel w file_path)"

definition load_xls :: "'w world \<Rightarrow> string \<Rightarrow> exn + dataframe" where
  "load_xls w file_path =
     (case pandas_read w file_path of
        Inr df \<Rightarrow> Inr df
      | Inl e \<Rightarrow>
          if isinstance_FileNotFoundError e
          then Inl (FileNotFoundError (''Error: File not found at path: '' @ file_path))
          else if isinstance_EmptyDataError e
          then Inl (ValueError (''Error: File is empty: '' @ file_path))
          else if py_contains (exn_str e) ''Excel file format cannot be determined''
                  \<or> py_contains (exn_str e) ''is not a valid Csv file''
                  \<or> isinstance_ValueError e
          then Inl (ValueError (''Error: File is not a valid Excel/CSV file or is corrupted: ''
                                @ file_path @ ''. Details: '' @ exn_str e))
          else Inl e)"

text \<open>
  The argument of \<open>save_xls\<close> is any Python object. A call of a pandas writer is recorded
  with its arguments: the path, the table, the \<open>index\<close> flag and, for \<open>to_excel\<close>, the
  engine.
\<close>

datatype py_object = DataFrame dataframe | NotDataFrame string

datatype write_call =
    ToCsv string dataframe bool
  | ToExcel string dataframe bool "string option"

definition save_xls :: "'w world \<Rightarrow> py_object \<Rightarrow> string \<Rightarrow> (exn + unit) \<times> write_call list" where
  "save_xls w obj file_path =
     (case obj of
        NotDataFrame d \<Rightarrow> (Inl (TypeError ''Input df must be a pandas DataFrame.''), [])
      | DataFrame df \<Rightarrow>
          (case (if py_endswith (py_lower file_path) ''.csv''
                 then (to_csv w df file_path False, [ToCsv file_path df False])
                 else if py_endswith (py_lower file_path) ''.xlsx''
                 then (to_excel w df file_path False (Some ''openpyxl''),
                       [ToExcel file_path df False (Some ''openpyxl'')])
                 else if py_endswith (py_lower file_path) ''.xls''
                 then (to_excel w df file_path False None,
                       [ToExcel file_path df False None])
                 else (Some (ValueError (''Unsupported file extension: '' @ file_path
                                         @ ''. Please use .csv, .xls, or .xlsx.'')), []))
           of
             (None, calls) \<Rightarrow> (Inr (), calls)
           | (Some e, calls) \<Rightarrow>
               if isinstance_OSError e
               then (Inl (IOError (''Error: Could not write file to path: '' @ file_path
                                   @ ''. Details: '' @ exn_str e)), calls)
               else (Inl (IOError (''Error: Failed to save file '' @ quote @ file_path @ quote
                                   @ '' due to an unexpected error. Details: '' @ exn_str e)),
                     calls)))"

text \<open>
  The header a pandas writer emits for a call: the column labels in table order, after
  one unlabelled column for the row index when \<open>index\<close> is true.
\<close>

fun emitted_columns :: "write_call \<Rightarrow> string list" where
  "emitted_columns (ToCsv path df index) = (if index then [[]] else []) @ columns df"
| "emitted_columns (ToExcel path df index engine) = (if index then [[]] else []) @ columns df"


section \<open>The batch driver (\<open>main\<close>)\<close>

text \<open>
  One pass of the \<open>for\<close> loop appends to \<open>results\<close> in the \<open>try\<close> body or in one of the
  \<open>except\<close> clauses, tried in order. The index of a row is its position, as in the
  tables that \<open>load_xls\<close> returns, and writing to the console is taken not to fail, so
  the progress message after the append raises nothing.
\<close>

definition append_result :: "string list \<Rightarrow> exn + string \<Rightarrow> string list" where
  "append_result results outcome =
     (case outcome of
        Inr generated_text \<Rightarrow> results @ [generated_text]
      | Inl e \<Rightarrow>
          if isinstance_GeminiAPIError e then results @ [''ERROR_API'']
          else if isinstance_KeyError e then results @ [''ERROR_KEY'']
          else results @ [''ERROR_UNEXPECTED''])"

fun process_rows ::
  "'w world \<Rightarrow> string \<Rightarrow> (nat \<times> series) list \<Rightarrow> string list \<Rightarrow> 'w api_state
     \<Rightarrow> string list \<times> 'w api_state" where
  "process_rows w prompt_template [] results st = (results, st)"
| "process_rows w prompt_template ((index, row) # rest) results st =
     (case generate_text_from_row w row prompt_template ''gemini-pro'' st of
        (outcome, st') \<Rightarrow>
          process_rows w prompt_template rest (append_result results outcome) st')"

text \<open>
  \<open>df[name] = values\<close>, for values as many as the table has rows (the only case in which
  \<open>main\<close> assigns): every column with that label gets the new cells, and when there is
  none a column is added at the end.
\<close>

definition set_column :: "dataframe \<Rightarrow> string \<Rightarrow> cell list \<Rightarrow> dataframe" where
  "set_column df name values =
     (if name \<in> set (columns df)
      then df\<lparr>cols := map (\<lambda>c. if fst c = name then (fst c, values) else c) (cols df)\<rparr>
      else df\<lparr>cols := cols df @ [(name, values)]\<rparr>)"

record args =
  input_file :: string
  output_file :: string
  prompt_template :: string
  new_column_name :: string

datatype stage =
    ConfigurationError
  | FileLoadingError
  | CountMismatch
  | FileSavingError
  | Completed

record 'w run =
  exit_code :: nat
  stage :: stage
  results :: "string list"
  api :: "'w api_state"
  writes :: "write_call list"

definition main :: "'w world \<Rightarrow> 'w \<Rightarrow> args \<Rightarrow> 'w run" where
  "main w service0 a =
     (let st0 = \<lparr>service = service0, sent = []\<rparr>
      in case configure_gemini w of
           Inl e \<Rightarrow>
             \<lparr>exit_code = 1, stage = ConfigurationError, results = [], api = st0, writes = []\<rparr>
         | Inr u \<Rightarrow>
             (case load_xls w (input_file a) of
                Inl e \<Rightarrow>
                  \<lparr>exit_code = 1, stage = FileLoadingError, results = [], api = st0,
                   writes = []\<rparr>
              | Inr df \<Rightarrow>
                  (case process_rows w (prompt_template a) (iterrows df) [] st0 of
                     (rs, st) \<Rightarrow>
                       if length rs = len_df df
                       then (case save_xls w
                                    (DataFrame (set_column df (new_column_name a) (map CStr rs)))
                                    (output_file a) of
                               (Inl e, wr) \<Rightarrow>
                                 \<lparr>exit_code = 1, stage = FileSavingError, results = rs,
                                  api = st, writes = wr\<rparr>
                             | (Inr u2, wr) \<Rightarrow>
                                 \<lparr>exit_code = 0, stage = Completed, results = rs, api = st,
                                  writes = wr\<rparr>)
                       else \<lparr>exit_code = 1, stage = CountMismatch, results = rs, api = st,
                             writes = []\<rparr>)))"


section \<open>A concrete world\<close>

text \<open>
  The table of the specification's end-to-end scenarios, with a service that echoes the
  prompt, a key in the environment and writers that succeed. The service state counts
  the calls.
\<close>

definition widget_row :: series where
  "widget_row = [(''name'', CStr ''Widget''), (''desc'', CStr ''Blue widget'')]"

definition widget_table :: dataframe where
  "widget_table =
     \<lparr>nrows = 1, cols = [(''name'', [CStr ''Widget'']), (''desc'', [CStr ''Blue widget''])]\<rparr>"

definition echo_response :: "string \<Rightarrow> response" where
  "echo_response p =
     \<lparr>parts = [p], prompt_feedback = None, candidates = [], response_text = TextValue p\<rparr>"

definition echo_world :: "nat world" where
  "echo_world =
     \<lparr>getenv = (\<lambda>name. if name = ''GEMINI_API_KEY'' then Some ''secret'' else None),
      genai_configure = (\<lambda>key. None),
      format_value = plain_only,
      generate_content = (\<lambda>n model_name p. (Inr (echo_response p), Suc n)),
      read_csv = (\<lambda>path. if path = ''in.csv'' then Inr widget_table
                           else Inl (FileNotFoundError ''No such file or directory'')),
      read_excel = (\<lambda>path. Inl (FileNotFoundError ''No such file or directory'')),
      to_csv = (\<lambda>df path index. None),
      to_excel = (\<lambda>df path index engine. None)\<rparr>"








definition no_key_world :: "nat world" where
  "no_key_world = echo_world\<lparr>getenv := (\<lambda>name. None)\<rparr>"

definition widget_args :: args where
  "widget_args =
     \<lparr>input_file = ''in.csv'', output_file = ''out.CSV'',
      prompt_template = ''Ad for {name} : {desc}'', new_column_name = ''ad''\<rparr>"

section \<open>Rendering: a placeholder next to punctuation\<close>

text \<open>
  Claim C1. With the record \<open>{name: Widget, desc: Blue widget}\<close> and the template
  \<open>Ad for {name}: {desc}\<close>, whose placeholders are both columns of the record, the
  rendering step does not return \<open>Ad for Widget: Blue widget\<close>: the check before
  formatting takes the word \<open>{name}:\<close>, strips it to \<open>name}:\<close>, does not find that among
  the columns and raises \<open>KeyError\<close>. \<open>str.format\<close> on the same input gives the expected
  text.
\<close>

theorem render_prompt_placeholder_next_to_punctuation:
  "render_prompt ext widget_row ''Ad for {name}: {desc}'' = Inl (KeyError ''name}:'')
   \<and> py_format ext ''Ad for {name}: {desc}'' (to_dict widget_row)
       = Inr ''Ad for Widget: Blue widget''"
  by code_simp


section \<open>The batch loop: one result per record\<close>

lemma length_append_result: "length (append_result rs outcome) = Suc (length rs)"
  by (simp add: append_result_def split: sum.splits)

lemma process_rows_extends:
  "\<exists>new. fst (process_rows w t rows rs st) = rs @ new \<and> length new = length rows"
proof (induction rows arbitrary: rs st)
  case Nil
  then show ?case by simp
next
  case (Cons x rows)
  obtain i row where x: "x = (i, row)" by (cases x)
  obtain outcome st' where g: "generate_text_from_row w row t ''gemini-pro'' st = (outcome, st')"
    by (cases "generate_text_from_row w row t ''gemini-pro'' st")
  have "\<exists>v. append_result rs outcome = rs @ [v]"
    by (cases outcome) (simp_all add: append_result_def)
  then obtain v where v: "append_result rs outcome = rs @ [v]" ..
  from Cons.IH[of "rs @ [v]" st'] obtain new where
    "fst (process_rows w t rows (rs @ [v]) st') = (rs @ [v]) @ new" "length new = length rows"
    by blast
  then show ?case using x g v by (intro exI[of _ "v # new"]) simp
qed

lemma process_rows_length:
  "length (fst (process_rows w t rows rs st)) = length rs + length rows"
  using process_rows_extends[of w t rows rs st] by auto



lemma length_iterrows: "length (iterrows df) = len_df df"
  by (simp add: iterrows_def len_df_def)






section \<open>The batch loop: sentinels\<close>









section \<open>The generation client: text or error\<close>


















section \<open>Saving: the unsupported extension\<close>

text \<open>
  Claim C5. For the path \<open>unsupported.ext\<close> of the module's own test, \<open>save_xls\<close> raises
  the \<open>ValueError\<close> for the unsupported extension inside its \<open>try\<close> block, where the last
  \<open>except\<close> clause catches it: what leaves the function is an \<open>IOError\<close>, the error of a
  failed write, and no writer is called. An argument that is not a table fails with
  \<open>TypeError\<close> before the \<open>try\<close> block, with no writer called.
\<close>

theorem save_xls_unsupported_extension:
  "save_xls w (DataFrame df) ''unsupported.ext'' =
     (Inl (IOError (''Error: Failed to save file '' @ quote @ ''unsupported.ext'' @ quote
                    @ '' due to an unexpected error. Details: ''
                    @ ''Unsupported file extension: unsupported.ext. Please use .csv, .xls, or .xlsx.'')),
      [])
   \<and> save_xls w (NotDataFrame ''not a dataframe'') ''error_test.xlsx'' =
     (Inl (TypeError ''Input df must be a pandas DataFrame.''), [])"
proof -
  have "\<not> py_endswith (py_lower ''unsupported.ext'') ''.csv''"
       "\<not> py_endswith (py_lower ''unsupported.ext'') ''.xlsx''"
       "\<not> py_endswith (py_lower ''unsupported.ext'') ''.xls''"
    by code_simp+
  then show ?thesis by (simp add: save_xls_def)
qed


section \<open>Loading: missing and empty files\<close>





section \<open>Configuration: the missing key\<close>

text \<open>
  Claim C7. When the environment has no \<open>GEMINI_API_KEY\<close>, \<open>configure_gemini\<close> raises
  \<open>ValueError\<close> and \<open>main\<close> exits with code 1 at the configuration step: no record has a
  result, no prompt was sent to the service, and no file was written.
\<close>

theorem missing_api_key_is_fatal:
  assumes "getenv w ''GEMINI_API_KEY'' = None"
  shows "(\<exists>m. configure_gemini w = Inl (ValueError m))
         \<and> exit_code (main w service0 a) = 1
         \<and> stage (main w service0 a) = ConfigurationError
         \<and> results (main w service0 a) = []
         \<and> api (main w service0 a) = \<lparr>service = service0, sent = []\<rparr>
         \<and> writes (main w service0 a) = []"
  using assms by (simp add: configure_gemini_def main_def)

theorem missing_api_key_is_fatal_witness:
  "getenv no_key_world ''GEMINI_API_KEY'' = None
   \<and> exit_code (main no_key_world 0 widget_args) = 1
   \<and> results (main no_key_world 0 widget_args) = []
   \<and> sent (api (main no_key_world 0 widget_args)) = []
   \<and> writes (main no_key_world 0 widget_args) = []"
proof -
  have h: "getenv no_key_world ''GEMINI_API_KEY'' = None"
    by (simp add: no_key_world_def)
  from missing_api_key_is_fatal[OF h, of 0 widget_args] h show ?thesis by simp
qed


section \<open>File formats by extension\<close>

lemma py_lower_append: "py_lower (b @ e) = py_lower b @ py_lower e"
  by (simp add: py_lower_def)

lemma py_endswith_append: "py_endswith (b @ suf) suf"
  by (simp add: py_endswith_def)

lemma py_endswith_lower: "py_lower e = suf \<Longrightarrow> py_endswith (py_lower (b @ e)) suf"
  using py_endswith_append[of "py_lower b" suf] by (simp add: py_lower_append)

lemma py_endswith_last:
  assumes "py_endswith s suf" and "suf \<noteq> []"
  shows "last s = last suf"
proof -
  from assms have "s = take (length s - length suf) s @ suf"
    by (metis append_take_drop_id py_endswith_def)
  with assms(2) show ?thesis by (metis last_append)
qed

lemma xlsx_not_csv: "py_endswith s ''.xlsx'' \<Longrightarrow> \<not> py_endswith s ''.csv''"
  by (auto dest!: py_endswith_last)

lemma xls_not_csv: "py_endswith s ''.xls'' \<Longrightarrow> \<not> py_endswith s ''.csv''"
  by (auto dest!: py_endswith_last)

lemma xls_not_xlsx: "py_endswith s ''.xls'' \<Longrightarrow> \<not> py_endswith s ''.xlsx''"
  by (auto dest!: py_endswith_last)

text \<open>
  Claim C10. The format is chosen on the lower-cased path. For a path \<open>b @ e\<close> whose
  extension \<open>e\<close> is any letter-casing of \<open>.csv\<close>, \<open>load_xls\<close> reads with \<open>read_csv\<close> and
  \<open>save_xls\<close> calls \<open>to_csv\<close> and succeeds when the writer does; for any path that does not
  end in a casing of \<open>.csv\<close>, \<open>load_xls\<close> reads with \<open>read_excel\<close>; for any casing of
  \<open>.xlsx\<close> and of \<open>.xls\<close>, \<open>save_xls\<close> calls \<open>to_excel\<close>, with the engine openpyxl and with
  the default engine.
\<close>

theorem extension_dispatch_ignores_case:
  "(py_lower e = ''.csv'' \<longrightarrow>
        pandas_read w (b @ e) = read_csv w (b @ e)
        \<and> snd (save_xls w (DataFrame df) (b @ e)) = [ToCsv (b @ e) df False]
        \<and> ((fst (save_xls w (DataFrame df) (b @ e)) = Inr ())
             = (to_csv w df (b @ e) False = None)))
   \<and> (\<not> py_endswith (py_lower p) ''.csv'' \<longrightarrow> pandas_read w p = read_excel w p)
   \<and> (py_lower e = ''.xlsx'' \<longrightarrow>
        snd (save_xls w (DataFrame df) (b @ e)) = [ToExcel (b @ e) df False (Some ''openpyxl'')]
        \<and> ((fst (save_xls w (DataFrame df) (b @ e)) = Inr ())
             = (to_excel w df (b @ e) False (Some ''openpyxl'') = None)))
   \<and> (py_lower e = ''.xls'' \<longrightarrow>
        snd (save_xls w (DataFrame df) (b @ e)) = [ToExcel (b @ e) df False None]
        \<and> ((fst (save_xls w (DataFrame df) (b @ e)) = Inr ())
             = (to_excel w df (b @ e) False None = None)))"
proof (intro conjI impI)
  assume e: "py_lower e = ''.csv''"
  then have c: "py_endswith (py_lower (b @ e)) ''.csv''" by (rule py_endswith_lower)
  then show "pandas_read w (b @ e) = read_csv w (b @ e)"
    by (simp add: pandas_read_def)
  from c show "snd (save_xls w (DataFrame df) (b @ e)) = [ToCsv (b @ e) df False]"
    by (cases "to_csv w df (b @ e) False") (simp_all add: save_xls_def)
  from c show "(fst (save_xls w (DataFrame df) (b @ e)) = Inr ())
             = (to_csv w df (b @ e) False = None)"
    by (cases "to_csv w df (b @ e) False") (simp_all add: save_xls_def)
next
  assume "\<not> py_endswith (py_lower p) ''.csv''"
  then show "pandas_read w p = read_excel w p" by (simp add: pandas_read_def)
next
  assume e: "py_lower e = ''.xlsx''"
  then have x: "py_endswith (py_lower (b @ e)) ''.xlsx''" by (rule py_endswith_lower)
  then have c: "\<not> py_endswith (py_lower (b @ e)) ''.csv''" by (rule xlsx_not_csv)
  from x c show "snd (save_xls w (DataFrame df) (b @ e))
      = [ToExcel (b @ e) df False (Some ''openpyxl'')]"
    by (cases "to_excel w df (b @ e) False (Some ''openpyxl'')") (simp_all add: save_xls_def)
  from x c show "(fst (save_xls w (DataFrame df) (b @ e)) = Inr ())
             = (to_excel w df (b @ e) False (Some ''openpyxl'') = None)"
    by (cases "to_excel w df (b @ e) False (Some ''openpyxl'')") (simp_all add: save_xls_def)
next
  assume e: "py_lower e = ''.xls''"
  then have x: "py_endswith (py_lower (b @ e)) ''.xls''" by (rule py_endswith_lower)
  then have c: "\<not> py_endswith (py_lower (b @ e)) ''.csv''"
    and d: "\<not> py_endswith (py_lower (b @ e)) ''.xlsx''"
    by (rule xls_not_csv, rule xls_not_xlsx)
  from x c d show "snd (save_xls w (DataFrame df) (b @ e)) = [ToExcel (b @ e) df False None]"
    by (cases "to_excel w df (b @ e) False None") (simp_all add: save_xls_def)
  from x c d show "(fst (save_xls w (DataFrame df) (b @ e)) = Inr ())
             = (to_excel w df (b @ e) False None = None)"
    by (cases "to_excel w df (b @ e) False None") (simp_all add: save_xls_def)
qed

theorem extension_dispatch_ignores_case_witness:
  "py_lower ''.CSV'' = ''.csv''
   \<and> save_xls echo_world (DataFrame widget_table) ''out.CSV''
       = (Inr (), [ToCsv ''out.CSV'' widget_table False])
   \<and> py_lower ''.XlsX'' = ''.xlsx''
   \<and> snd (save_xls echo_world (DataFrame widget_table) ''out.XlsX'')
       = [ToExcel ''out.XlsX'' widget_table False (Some ''openpyxl'')]
   \<and> py_lower ''.XLS'' = ''.xls''
   \<and> snd (save_xls echo_world (DataFrame widget_table) ''out.XLS'')
       = [ToExcel ''out.XLS'' widget_table False None]
   \<and> \<not> py_endswith (py_lower ''not_a_valid_file.txt'') ''.csv''
   \<and> pandas_read echo_world ''not_a_valid_file.txt''
       = Inl (FileNotFoundError ''No such file or directory'')"
proof -
  have l1: "py_lower ''.CSV'' = ''.csv''" and l2: "py_lower ''.XlsX'' = ''.xlsx''"
    and l3: "py_lower ''.XLS'' = ''.xls''"
    and l4: "\<not> py_endswith (py_lower ''not_a_valid_file.txt'') ''.csv''"
    by code_simp+
  have t: "to_csv echo_world widget_table ''out.CSV'' False = None"
    and r: "read_excel echo_world ''not_a_valid_file.txt''
              = Inl (FileNotFoundError ''No such file or directory'')"
    by (simp_all add: echo_world_def)
  note th = extension_dispatch_ignores_case
  from th[of "''.CSV''" echo_world "''out''" widget_table "''not_a_valid_file.txt''"] l1 l4 t r
  have a: "save_xls echo_world (DataFrame widget_table) ''out.CSV''
       = (Inr (), [ToCsv ''out.CSV'' widget_table False])"
    and d: "pandas_read echo_world ''not_a_valid_file.txt''
       = Inl (FileNotFoundError ''No such file or directory'')"
    by (simp_all add: prod_eq_iff)
  from th[of "''.XlsX''" echo_world "''out''" widget_table "''not_a_valid_file.txt''"] l2
  have b: "snd (save_xls echo_world (DataFrame widget_table) ''out.XlsX'')
       = [ToExcel ''out.XlsX'' widget_table False (Some ''openpyxl'')]"
    by simp
  from th[of "''.XLS''" echo_world "''out''" widget_table "''not_a_valid_file.txt''"] l3
  have c: "snd (save_xls echo_world (DataFrame widget_table) ''out.XLS'')
       = [ToExcel ''out.XLS'' widget_table False None]"
    by simp
  from l1 l2 l3 l4 a b c d show ?thesis by simp
qed


section \<open>The result column and the saved columns\<close>

lemma save_xls_emits:
  "call \<in> set (snd (save_xls w (DataFrame df) path)) \<Longrightarrow> emitted_columns call = columns df"
  by (auto simp: save_xls_def split: if_splits option.splits)

lemma main_writes:
  assumes "load_xls w (input_file a) = Inr d"
    and "call \<in> set (writes (main w service0 a))"
  shows "emitted_columns call
           = columns (set_column d (new_column_name a) (map CStr (results (main w service0 a))))"
proof (cases "configure_gemini w")
  case (Inl e)
  with assms show ?thesis by (simp add: main_def)
next
  case (Inr u)
  obtain rs st' where p: "process_rows w (prompt_template a) (iterrows d) []
      \<lparr>service = service0, sent = []\<rparr> = (rs, st')"
    by (cases "process_rows w (prompt_template a) (iterrows d) []
      \<lparr>service = service0, sent = []\<rparr>")
  have n: "length rs = len_df d"
    using process_rows_length[of w "prompt_template a" "iterrows d" "[]"
            "\<lparr>service = service0, sent = []\<rparr>"] p
    by (simp add: length_iterrows)
  obtain out wr where s: "save_xls w
      (DataFrame (set_column d (new_column_name a) (map CStr rs))) (output_file a) = (out, wr)"
    by (cases "save_xls w
      (DataFrame (set_column d (new_column_name a) (map CStr rs))) (output_file a)")
  from Inr assms(1) p n s have "writes (main w service0 a) = wr"
    and "results (main w service0 a) = rs"
    by (cases out; simp add: main_def)+
  with assms(2) s show ?thesis
    using save_xls_emits[of call w "set_column d (new_column_name a) (map CStr rs)" "output_file a"]
    by simp
qed

text \<open>
  Claim C9. Assigning the column \<open>name\<close> keeps the column labels when the label is
  already there and adds it at the end otherwise; every column with another label keeps
  its place, its label and its cells; the columns labelled \<open>name\<close> hold the new values;
  the number of rows stays. Every writer call of \<open>save_xls\<close> emits exactly the table's
  column labels in table order, with no index column, and the table \<open>main\<close> writes is the
  loaded table with the result column assigned.
\<close>

theorem only_new_column_changes:
  "(name \<in> set (columns df) \<longrightarrow> columns (set_column df name vs) = columns df)
   \<and> (name \<notin> set (columns df) \<longrightarrow> columns (set_column df name vs) = columns df @ [name])
   \<and> nrows (set_column df name vs) = nrows df
   \<and> (\<forall>j < length (cols df). fst (cols df ! j) \<noteq> name \<longrightarrow>
         cols (set_column df name vs) ! j = cols df ! j)
   \<and> (\<forall>c \<in> set (cols (set_column df name vs)). fst c = name \<longrightarrow> snd c = vs)
   \<and> name \<in> set (columns (set_column df name vs))
   \<and> (\<forall>call \<in> set (snd (save_xls w (DataFrame df) path)). emitted_columns call = columns df)
   \<and> (\<forall>d. load_xls w (input_file a) = Inr d \<longrightarrow>
         (\<forall>call \<in> set (writes (main w service0 a)).
            emitted_columns call
              = columns (set_column d (new_column_name a)
                           (map CStr (results (main w service0 a))))))"
proof (intro conjI)
  show old: "name \<in> set (columns df) \<longrightarrow> columns (set_column df name vs) = columns df"
    by (auto simp: set_column_def columns_def intro!: map_idI)
  show new: "name \<notin> set (columns df) \<longrightarrow> columns (set_column df name vs) = columns df @ [name]"
    by (simp add: set_column_def columns_def)
  show "nrows (set_column df name vs) = nrows df"
    by (simp add: set_column_def)
  show "\<forall>j < length (cols df). fst (cols df ! j) \<noteq> name \<longrightarrow>
         cols (set_column df name vs) ! j = cols df ! j"
    by (simp add: set_column_def nth_append)
  show "\<forall>c \<in> set (cols (set_column df name vs)). fst c = name \<longrightarrow> snd c = vs"
    by (auto simp: set_column_def columns_def split: if_splits)
  show "name \<in> set (columns (set_column df name vs))"
    using old new by (cases "name \<in> set (columns df)") simp_all
  show "\<forall>call \<in> set (snd (save_xls w (DataFrame df) path)). emitted_columns call = columns df"
    using save_xls_emits by blast
  show "\<forall>d. load_xls w (input_file a) = Inr d \<longrightarrow>
         (\<forall>call \<in> set (writes (main w service0 a)).
            emitted_columns call
              = columns (set_column d (new_column_name a)
                           (map CStr (results (main w service0 a)))))"
    by (intro allI impI ballI) (rule main_writes)
qed

theorem only_new_column_changes_witness:
  "columns (set_column widget_table ''desc'' [CStr ''ERROR_API'']) = [''name'', ''desc'']
   \<and> cols (set_column widget_table ''desc'' [CStr ''ERROR_API'']) ! 0 = (''name'', [CStr ''Widget''])
   \<and> columns (set_column widget_table ''ad'' [CStr ''ERROR_API'']) = [''name'', ''desc'', ''ad'']
   \<and> writes (main echo_world 0 widget_args)
       = [ToCsv ''out.CSV''
            \<lparr>nrows = 1,
             cols = [(''name'', [CStr ''Widget'']), (''desc'', [CStr ''Blue widget'']),
                     (''ad'', [CStr ''Ad for Widget : Blue widget''])]\<rparr> False]
   \<and> emitted_columns (ToCsv ''out.CSV''
            \<lparr>nrows = 1,
             cols = [(''name'', [CStr ''Widget'']), (''desc'', [CStr ''Blue widget'']),
                     (''ad'', [CStr ''Ad for Widget : Blue widget''])]\<rparr> False)
       = [''name'', ''desc'', ''ad'']"
proof -
  have c: "columns widget_table = [''name'', ''desc'']"
    and k: "cols widget_table ! 0 = (''name'', [CStr ''Widget''])"
    and n: "length (cols widget_table) = 2"
    by (simp_all add: widget_table_def columns_def)
  have l: "load_xls echo_world (input_file widget_args) = Inr widget_table"
    by code_simp
  have m: "writes (main echo_world 0 widget_args)
       = [ToCsv ''out.CSV''
            \<lparr>nrows = 1,
             cols = [(''name'', [CStr ''Widget'']), (''desc'', [CStr ''Blue widget'']),
                     (''ad'', [CStr ''Ad for Widget : Blue widget''])]\<rparr> False]"
    and r: "results (main echo_world 0 widget_args) = [''Ad for Widget : Blue widget'']"
    by code_simp+
  note th = only_new_column_changes
  from th[of "''desc''" widget_table "[CStr ''ERROR_API'']" echo_world "''out.csv''" widget_args 0] c k n
  have a: "columns (set_column widget_table ''desc'' [CStr ''ERROR_API'']) = [''name'', ''desc'']"
    and b: "cols (set_column widget_table ''desc'' [CStr ''ERROR_API'']) ! 0
              = (''name'', [CStr ''Widget''])"
    by auto
  from th[of "''ad''" widget_table "[CStr ''ERROR_API'']" echo_world "''out.csv''" widget_args 0] c
  have d: "columns (set_column widget_table ''ad'' [CStr ''ERROR_API'']) = [''name'', ''desc'', ''ad'']"
    by simp
  have s: "columns (set_column widget_table (new_column_name widget_args)
                      (map CStr [''Ad for Widget : Blue widget'']))
             = [''name'', ''desc'', ''ad'']"
    by code_simp
  from th[of "''ad''" widget_table "[CStr ''ERROR_API'']" echo_world "''out.csv''" widget_args 0] l m r s
  have e: "emitted_columns (ToCsv ''out.CSV''
            \<lparr>nrows = 1,
             cols = [(''name'', [CStr ''Widget'']), (''desc'', [CStr ''Blue widget'']),
                     (''ad'', [CStr ''Ad for Widget : Blue widget''])]\<rparr> False)
       = [''name'', ''desc'', ''ad'']"
    by simp
  from a b d m e show ?thesis by simp
qed


section \<open>Rendering: a missing placeholder\<close>









end
